theory Spec2Isabelle
  imports Main "HOL-Library.Word"
begin

section \<open>The GitStorage class of src/github-storage.ts\<close>

subsection \<open>Values\<close>

text \<open>
  JavaScript strings are modelled as \<open>string\<close>; an optional argument
  (\<open>branch?: string\<close>, \<open>message?: string\<close>) is a \<open>string option\<close>, with \<open>None\<close>
  for \<open>undefined\<close>. The empty string is the only falsy string.
\<close>

definition truthy :: "string option \<Rightarrow> bool" where
  "truthy v = (case v of None \<Rightarrow> False | Some s \<Rightarrow> s \<noteq> [])"

text \<open>\<open>a || b\<close> on an optional string and a string.\<close>

definition or_else :: "string option \<Rightarrow> string \<Rightarrow> string" where
  "or_else a b = (if truthy a then the a else b)"

text \<open>\<open>a ?? b\<close>: only an absent value takes the right-hand side.\<close>

definition nullish_else :: "string option \<Rightarrow> string \<Rightarrow> string" where
  "nullish_else a b = (case a of None \<Rightarrow> b | Some s \<Rightarrow> s)"

text \<open>A default parameter value (\<open>branch = 'main'\<close>) replaces \<open>undefined\<close> only.\<close>

definition default_param :: "string option \<Rightarrow> string \<Rightarrow> string" where
  "default_param a d = (case a of None \<Rightarrow> d | Some s \<Rightarrow> s)"

subsection \<open>Errors\<close>

text \<open>
  \<open>Error msg\<close> is \<open>new Error(msg)\<close> thrown by the class itself, \<open>TypeError\<close> a property
  read on \<open>null\<close>, \<open>RequestError status\<close> the rejection of a call to the remote API, with
  the status of the response (0 when there was none), and \<open>InvalidCharacterError\<close> the
  exception of \<open>atob\<close> on a string that is not base64.
\<close>

datatype error = Error string | TypeError | RequestError nat | InvalidCharacterError

subsection \<open>The remote API\<close>

text \<open>
  The parameter object of a request is the list of its keys and values, in the order the
  object literal of the source writes them.
\<close>

type_synonym params = "(string \<times> string) list"

datatype endpoint = ReposGet | ReposGetContent | ReposCreateOrUpdateFileContents | ReposDeleteFile

text \<open>A request as the client sends it: the endpoint, the client's credential, the parameters.\<close>

datatype request = Request endpoint "string option" params

record entry =
  sha :: string
  encoding :: "string option"
  content :: "string option"

text \<open>
  \<open>res.data\<close> of a content read: an array of entries for a folder, one object for a
  file, or nothing.
\<close>

datatype content_data = Listing "entry list" | Single entry | NoData

text \<open>
  The remote is a state \<open>'s\<close> (the repository as the service holds it, which other
  writers may change) and one responder for each endpoint; a responder answers a request
  with the status of a rejection or with the data of the response, and a new state.
\<close>

record 's octokit_api =
  repos_get :: "params \<Rightarrow> 's \<Rightarrow> (nat + string) \<times> 's"
  repos_getContent :: "params \<Rightarrow> 's \<Rightarrow> (nat + content_data) \<times> 's"
  repos_createOrUpdateFileContents :: "params \<Rightarrow> 's \<Rightarrow> (nat + string) \<times> 's"
  repos_deleteFile :: "params \<Rightarrow> 's \<Rightarrow> (nat + unit) \<times> 's"

text \<open>
  The world of a call: the remote state and the requests issued so far, oldest first.
  \<open>issue\<close> is one awaited call of the client: it records the request and gives the
  data of the response, or throws the rejection.
\<close>

record 's world =
  remote :: 's
  requests :: "request list"

definition issue ::
  "endpoint \<Rightarrow> (params \<Rightarrow> 's \<Rightarrow> (nat + 'a) \<times> 's) \<Rightarrow> string option \<Rightarrow> params \<Rightarrow>
   's world \<Rightarrow> (error + 'a) \<times> 's world" where
  "issue ep responder auth ps w =
     (case responder ps (remote w) of
        (r, s') \<Rightarrow>
          (case r of Inl status \<Rightarrow> Inl (RequestError status) | Inr d \<Rightarrow> Inr d,
           \<lparr>remote = s', requests = requests w @ [Request ep auth ps]\<rparr>))"

subsection \<open>The handle\<close>

text \<open>
  The fields of the class. \<open>octokit\<close> is the client; what the model keeps of it is the
  credential it was created with.
\<close>

record GitStorage =
  octokit :: "string option"
  owner :: string
  repo :: string
  token :: "string option"
  defaultBranch :: string

record options =
  opt_token :: "string option"
  opt_defaultBranch :: "string option"

definition constructor :: "string \<Rightarrow> string \<Rightarrow> options option \<Rightarrow> GitStorage" where
  "constructor own rep opts =
     (let tok = (case opts of None \<Rightarrow> None | Some os \<Rightarrow> opt_token os);
          br = or_else (case opts of None \<Rightarrow> None | Some os \<Rightarrow> opt_defaultBranch os) ''main''
      in \<lparr>octokit = (if truthy tok then tok else None),
          owner = own, repo = rep, token = tok, defaultBranch = br\<rparr>)"

text \<open>
  \<open>setDefaultBranch\<close> returns the outcome and the handle after the call; the \<open>throw\<close>
  comes before the assignment.
\<close>

definition setDefaultBranch :: "GitStorage \<Rightarrow> string \<Rightarrow> (error + unit) \<times> GitStorage" where
  "setDefaultBranch h branch =
     (if \<not> truthy (Some branch) then (Inl (Error ''Branch name cannot be empty''), h)
      else (Inr (), h\<lparr>defaultBranch := branch\<rparr>))"

subsection \<open>Operations on the remote\<close>

definition getRepoInfo :: "'s octokit_api \<Rightarrow> GitStorage \<Rightarrow> 's world \<Rightarrow> (error + string) \<times> 's world" where
  "getRepoInfo api h w =
     issue ReposGet (repos_get api) (octokit h) [(''owner'', owner h), (''repo'', repo h)] w"

definition listFiles ::
  "'s octokit_api \<Rightarrow> GitStorage \<Rightarrow> string \<Rightarrow> string option \<Rightarrow> 's world \<Rightarrow>
   (error + entry list) \<times> 's world" where
  "listFiles api h folder branch_arg w =
     (let branch = default_param branch_arg ''main'' in
      case issue ReposGetContent (repos_getContent api) (octokit h)
             [(''owner'', owner h), (''repo'', repo h), (''path'', folder), (''ref'', branch)] w of
        (Inl e, w') \<Rightarrow> (Inl e, w')
      | (Inr d, w') \<Rightarrow> (Inr (case d of Listing es \<Rightarrow> es | _ \<Rightarrow> []), w'))"

text \<open>
  The body of the \<open>try\<close> block of \<open>getFileSha\<close>, which may throw, and the whole function,
  whose \<open>catch\<close> turns every throw into \<open>undefined\<close>. \<open>data?.sha\<close> is \<open>undefined\<close> on an
  array and on no data.
\<close>

definition getFileSha_try ::
  "'s octokit_api \<Rightarrow> GitStorage \<Rightarrow> string \<Rightarrow> string option \<Rightarrow> 's world \<Rightarrow>
   (error + string option) \<times> 's world" where
  "getFileSha_try api h path branch w =
     (let useBranch = or_else branch (defaultBranch h) in
      case issue ReposGetContent (repos_getContent api) (octokit h)
             [(''owner'', owner h), (''repo'', repo h), (''path'', path), (''ref'', useBranch)] w of
        (Inl e, w') \<Rightarrow> (Inl e, w')
      | (Inr d, w') \<Rightarrow> (Inr (case d of Single f \<Rightarrow> Some (sha f) | _ \<Rightarrow> None), w'))"

definition getFileSha ::
  "'s octokit_api \<Rightarrow> GitStorage \<Rightarrow> string \<Rightarrow> string option \<Rightarrow> 's world \<Rightarrow>
   (error + string option) \<times> 's world" where
  "getFileSha api h path branch w =
     (case getFileSha_try api h path branch w of
        (Inl e, w') \<Rightarrow> (Inr None, w')
      | (Inr v, w') \<Rightarrow> (Inr v, w'))"

definition saveFile ::
  "'s octokit_api \<Rightarrow> GitStorage \<Rightarrow> string \<Rightarrow> string \<Rightarrow> string option \<Rightarrow> string option \<Rightarrow> bool \<Rightarrow>
   's world \<Rightarrow> (error + string) \<times> 's world" where
  "saveFile api h base64 path message branch skipCheck w =
     (let useBranch = or_else branch (defaultBranch h) in
      case (if \<not> skipCheck then getFileSha api h path branch w else (Inr None, w)) of
        (Inl e, w1) \<Rightarrow> (Inl e, w1)
      | (Inr sha_opt, w1) \<Rightarrow>
          (let commitMsg =
                 nullish_else message ((if truthy sha_opt then ''Update'' else ''Create'') @ '' '' @ path)
           in issue ReposCreateOrUpdateFileContents (repos_createOrUpdateFileContents api) (octokit h)
                ([(''owner'', owner h), (''repo'', repo h), (''path'', path),
                  (''message'', commitMsg), (''content'', base64)]
                 @ (if truthy sha_opt then [(''sha'', the sha_opt)] else [])
                 @ [(''useBranch'', useBranch)]) w1))"

definition downloadFile ::
  "'s octokit_api \<Rightarrow> GitStorage \<Rightarrow> string \<Rightarrow> string option \<Rightarrow> 's world \<Rightarrow>
   (error + entry option) \<times> 's world" where
  "downloadFile api h path branch_arg w =
     (let branch = default_param branch_arg ''main'' in
      case issue ReposGetContent (repos_getContent api) (octokit h)
             [(''owner'', owner h), (''repo'', repo h), (''path'', path), (''ref'', branch)] w of
        (Inl e, w') \<Rightarrow> (Inl e, w')
      | (Inr d, w') \<Rightarrow>
          (case d of
             NoData \<Rightarrow> (Inl TypeError, w')
           | Listing es \<Rightarrow> (Inr None, w')
           | Single f \<Rightarrow> (Inr (if encoding f = Some ''base64'' then Some f else None), w')))"

record delete_result =
  path :: string
  deleted :: bool

definition deleteFile ::
  "'s octokit_api \<Rightarrow> GitStorage \<Rightarrow> string \<Rightarrow> string option \<Rightarrow> 's world \<Rightarrow>
   (error + delete_result) \<times> 's world" where
  "deleteFile api h pth branch w =
     (let useBranch = or_else branch (defaultBranch h) in
      case getFileSha api h pth branch w of
        (Inl e, w1) \<Rightarrow> (Inl e, w1)
      | (Inr sha_opt, w1) \<Rightarrow>
          if \<not> truthy sha_opt then (Inl (Error ''File not found''), w1)
          else
            (case issue ReposDeleteFile (repos_deleteFile api) (octokit h)
                    [(''owner'', owner h), (''repo'', repo h), (''path'', pth),
                     (''message'', ''Delete '' @ pth), (''sha'', the sha_opt),
                     (''useBranch'', useBranch)] w1 of
               (Inl e, w2) \<Rightarrow> (Inl e, w2)
             | (Inr u, w2) \<Rightarrow> (Inr \<lparr>path = pth, deleted = True\<rparr>, w2)))"

subsection \<open>Regular expressions\<close>

text \<open>
  \<open>getPathFromDownloadUrl\<close> builds a pattern from a template string and the handle's
  owner and repository, which it inserts as they are. The model covers the fragment of
  the pattern language that the template uses: literal characters, an escaped syntax
  character, the dot, a negated character class of literal characters, the quantifier
  \<open>+\<close> on one of these, and capturing groups. \<open>RegExp\<close> gives \<open>None\<close> for a source
  outside this fragment, and for one that the constructor rejects.
\<close>

datatype rx_atom = Lit char | AnyChar | NotIn "char list"

datatype rx_token = TAtom rx_atom | TPlus | TOpen | TClose

datatype rx_piece = One rx_atom | Many rx_atom | Group "rx_piece list"

definition backslash :: char where
  "backslash = CHR 0x5C"

definition syntax_chars :: "char list" where
  "syntax_chars = backslash # ''^$.*+?()[]{}|/''"

text \<open>
  The tokens of a pattern source. The first argument is \<open>Some acc\<close> inside a negated
  class, \<open>acc\<close> being its characters read so far, last first.
\<close>

fun lex_pattern :: "char list option \<Rightarrow> string \<Rightarrow> rx_token list option" where
  "lex_pattern None [] = Some []"
| "lex_pattern (Some acc) [] = None"
| "lex_pattern (Some acc) (c # cs) =
     (if c = CHR '']'' then map_option ((#) (TAtom (NotIn (rev acc)))) (lex_pattern None cs)
      else if c = backslash \<or> c = CHR ''-'' then None
      else lex_pattern (Some (c # acc)) cs)"
| "lex_pattern None (c # cs) =
     (if c = backslash then
        (case cs of
           [] \<Rightarrow> None
         | x # cs' \<Rightarrow>
             if x \<in> set syntax_chars then map_option ((#) (TAtom (Lit x))) (lex_pattern None cs')
             else None)
      else if c = CHR ''['' then
        (case cs of
           [] \<Rightarrow> None
         | x # cs' \<Rightarrow> if x = CHR ''^'' then lex_pattern (Some []) cs' else None)
      else if c = CHR ''.'' then map_option ((#) (TAtom AnyChar)) (lex_pattern None cs)
      else if c = CHR ''+'' then map_option ((#) TPlus) (lex_pattern None cs)
      else if c = CHR ''('' then
        (case cs of
           [] \<Rightarrow> None
         | x # cs' \<Rightarrow> if x = CHR ''?'' then None else map_option ((#) TOpen) (lex_pattern None cs))
      else if c = CHR '')'' then map_option ((#) TClose) (lex_pattern None cs)
      else if c \<in> set ''*?{}|^$]'' then None
      else map_option ((#) (TAtom (Lit c))) (lex_pattern None cs))"

text \<open>
  The pieces of a token list. The first argument is the stack of the groups that are
  open, innermost first, each with its pieces read so far, last first.
\<close>

fun build_pieces :: "rx_piece list list \<Rightarrow> rx_token list \<Rightarrow> rx_piece list option" where
  "build_pieces [cur] [] = Some (rev cur)"
| "build_pieces st [] = None"
| "build_pieces (cur # st) (TAtom a # TPlus # ts) = build_pieces ((Many a # cur) # st) ts"
| "build_pieces (cur # st) (TAtom a # ts) = build_pieces ((One a # cur) # st) ts"
| "build_pieces st (TOpen # ts) = build_pieces ([] # st) ts"
| "build_pieces (inner # outer # st) (TClose # TPlus # ts) = None"
| "build_pieces (inner # outer # st) (TClose # ts) =
     build_pieces ((Group (rev inner) # outer) # st) ts"
| "build_pieces st ts = None"

definition RegExp :: "string \<Rightarrow> rx_piece list option" where
  "RegExp src = (case lex_pattern None src of None \<Rightarrow> None | Some ts \<Rightarrow> build_pieces [[]] ts)"

text \<open>The dot matches every character but a line terminator.\<close>

fun atom_ok :: "rx_atom \<Rightarrow> char \<Rightarrow> bool" where
  "atom_ok (Lit x) c = (c = x)"
| "atom_ok AnyChar c = (c \<noteq> CHR 0x0A \<and> c \<noteq> CHR 0x0D)"
| "atom_ok (NotIn xs) c = (c \<notin> set xs)"

text \<open>
  Matching by backtracking: every way a piece matches at the start of a string, in the
  order the matcher tries them (a greedy quantifier takes the longest run first), each
  with the texts of the groups it closed and the rest of the string.
\<close>

fun many :: "rx_atom \<Rightarrow> string \<Rightarrow> string list" where
  "many a [] = []"
| "many a (c # cs) = (if atom_ok a c then many a cs @ [cs] else [])"

fun match_piece :: "rx_piece \<Rightarrow> string \<Rightarrow> (string list \<times> string) list"
  and match_seq :: "rx_piece list \<Rightarrow> string \<Rightarrow> (string list \<times> string) list" where
  "match_piece (One a) s = (case s of [] \<Rightarrow> [] | c # cs \<Rightarrow> if atom_ok a c then [([], cs)] else [])"
| "match_piece (Many a) s = map (\<lambda>r. ([], r)) (many a s)"
| "match_piece (Group ps) s =
     map (\<lambda>(caps, r). (take (length s - length r) s # caps, r)) (match_seq ps s)"
| "match_seq [] s = [([], s)]"
| "match_seq (p # ps) s =
     concat (map (\<lambda>(c1, r). map (\<lambda>(c2, r2). (c1 @ c2, r2)) (match_seq ps r)) (match_piece p s))"

text \<open>
  \<open>url.match(regex)\<close> for a pattern without the global flag: the first match at the
  leftmost position that has one, as the array of the matched text and the groups.
\<close>

fun regex_exec :: "rx_piece list \<Rightarrow> string \<Rightarrow> string list option" where
  "regex_exec ps s =
     (case match_seq ps s of
        (caps, r) # _ \<Rightarrow> Some (take (length s - length r) s # caps)
      | [] \<Rightarrow> (case s of [] \<Rightarrow> None | _ # cs \<Rightarrow> regex_exec ps cs))"

text \<open>\<open>s.split(c)\<close> for a separator of one character.\<close>

fun split_on :: "char \<Rightarrow> string \<Rightarrow> string list" where
  "split_on c [] = [[]]"
| "split_on c (x # xs) =
     (if x = c then [] # split_on c xs
      else (case split_on c xs of y # ys \<Rightarrow> (x # y) # ys | [] \<Rightarrow> [[x]]))"

text \<open>Indexing an array: \<open>undefined\<close> out of range.\<close>

fun nth_opt :: "'a list \<Rightarrow> nat \<Rightarrow> 'a option" where
  "nth_opt [] n = None"
| "nth_opt (x # xs) 0 = Some x"
| "nth_opt (x # xs) (Suc n) = nth_opt xs n"

text \<open>
  The outer \<open>None\<close> is a pattern outside the modelled fragment; \<open>Some None\<close> is the
  \<open>null\<close> of the source. The pattern ends with a group, so a match has a first group.
\<close>

definition getPathFromDownloadUrl :: "GitStorage \<Rightarrow> string \<Rightarrow> string option option" where
  "getPathFromDownloadUrl h url =
     (case RegExp (''https://raw'' @ [backslash] @ ''.githubusercontent'' @ [backslash] @ ''.com/''
                   @ owner h @ ''/'' @ repo h @ ''/[^/]+/(.+)'') of
        None \<Rightarrow> None
      | Some regex \<Rightarrow>
          (case regex_exec regex url of
             None \<Rightarrow> Some None
           | Some m \<Rightarrow>
               (case nth_opt m 1 of
                  Some g1 \<Rightarrow> Some (nth_opt (split_on CHR ''?'' g1) 0)
                | None \<Rightarrow> None)))"

subsection \<open>Files, base64 and blobs\<close>

type_synonym byte = "8 word"

text \<open>A browser \<open>File\<close>: its media type and its bytes.\<close>

record File =
  file_type :: string
  file_bytes :: "byte list"

text \<open>
  Modelled from the spec: the base64 encoding that the host applies to the bytes of a
  file is not code of the repository; the spec only names the payload a base64-encoded
  byte sequence. It is modelled as standard base64: three bytes give four characters of
  the alphabet below, and a last group of one or two bytes is padded with \<open>=\<close>.
\<close>

definition base64_alphabet :: string where
  "base64_alphabet = ''ABCDEFGHIJKLMNOPQRSTUVWXYZabcdefghijklmnopqrstuvwxyz0123456789+/''"

definition base64_char :: "nat \<Rightarrow> char" where
  "base64_char i = base64_alphabet ! i"

fun base64_encode :: "byte list \<Rightarrow> string" where
  "base64_encode (a # b # c # rest) =
     [base64_char (unat a div 4),
      base64_char ((unat a mod 4) * 16 + unat b div 16),
      base64_char ((unat b mod 16) * 4 + unat c div 64),
      base64_char (unat c mod 64)] @ base64_encode rest"
| "base64_encode [a, b] =
     [base64_char (unat a div 4),
      base64_char ((unat a mod 4) * 16 + unat b div 16),
      base64_char ((unat b mod 16) * 4),
      CHR ''='']"
| "base64_encode [a] =
     [base64_char (unat a div 4),
      base64_char ((unat a mod 4) * 16),
      CHR ''='', CHR ''='']"
| "base64_encode [] = []"

text \<open>
  Modelled from the spec: \<open>FileReader.readAsDataURL\<close> is a function of the host, not of
  the repository; the spec calls it an external collaborator that reads the file's bytes
  and yields them base64-encoded behind a data-URI prefix. It is modelled as a read that
  succeeds with the data URL of the file: the media type as the file gives it, then
  the bytes in base64, on one line.
\<close>

definition readAsDataURL :: "File \<Rightarrow> string option" where
  "readAsDataURL f = Some (''data:'' @ file_type f @ '';base64,'' @ base64_encode (file_bytes f))"

text \<open>
  The parts of the host's decoder: the place of a character in the alphabet, the
  characters it skips, the padding it drops, and the bytes of a list of six-bit values.
\<close>

fun index_of :: "'a \<Rightarrow> 'a list \<Rightarrow> nat option" where
  "index_of x [] = None"
| "index_of x (y # ys) = (if x = y then Some 0 else map_option Suc (index_of x ys))"

definition ascii_whitespace :: "char list" where
  "ascii_whitespace = [CHR 0x09, CHR 0x0A, CHR 0x0C, CHR 0x0D, CHR 0x20]"

definition remove_padding :: "string \<Rightarrow> string" where
  "remove_padding d =
     (if length d mod 4 = 0 then
        (if 2 \<le> length d \<and> last d = CHR ''='' \<and> last (butlast d) = CHR ''=''
         then butlast (butlast d)
         else if d \<noteq> [] \<and> last d = CHR ''='' then butlast d
         else d)
      else d)"

fun decode_sextets :: "nat list \<Rightarrow> nat list" where
  "decode_sextets (s0 # s1 # s2 # s3 # rest) =
     [s0 * 4 + s1 div 16, (s1 mod 16) * 16 + s2 div 4, (s2 mod 4) * 64 + s3] @ decode_sextets rest"
| "decode_sextets [s0, s1, s2] = [s0 * 4 + s1 div 16, (s1 mod 16) * 16 + s2 div 4]"
| "decode_sextets [s0, s1] = [s0 * 4 + s1 div 16]"
| "decode_sextets [s0] = []"
| "decode_sextets [] = []"

text \<open>
  Modelled from the spec: \<open>atob\<close> is a function of the host, not of the repository; the
  spec names the decoding of a base64 string into raw bytes. It is modelled as the
  forgiving base64 decoder of browsers: ASCII whitespace is dropped, one or two \<open>=\<close> at
  the end of a string whose length is a multiple of four are dropped, a length of
  \<open>1 mod 4\<close> or a character outside the alphabet is an error, and the bits that do not
  fill a byte at the end are discarded. The result is the binary string, one character
  for each byte.
\<close>

definition atob :: "string \<Rightarrow> error + string" where
  "atob s =
     (let d = remove_padding (filter (\<lambda>c. c \<notin> set ascii_whitespace) s) in
      if length d mod 4 = 1 then Inl InvalidCharacterError
      else case those (map (\<lambda>c. index_of c base64_alphabet) d) of
             None \<Rightarrow> Inl InvalidCharacterError
           | Some sx \<Rightarrow> Inr (map char_of (decode_sextets sx)))"

text \<open>
  \<open>fileToBase64\<close>, given the host's reader: \<open>None\<close> from the reader is its \<open>onerror\<close>,
  \<open>Some result\<close> its \<open>onload\<close> with \<open>reader.result\<close>.
\<close>

definition fileToBase64 :: "(File \<Rightarrow> string option) \<Rightarrow> File \<Rightarrow> error + string" where
  "fileToBase64 reader file =
     (case reader file of
        None \<Rightarrow> Inl (Error ''File read error'')
      | Some result \<Rightarrow> Inr (or_else (nth_opt (split_on CHR '','' result) 1) []))"

text \<open>\<open>s.replace(/\r?\n/g, '')\<close>: every line feed goes, with a carriage return before it.\<close>

fun replace_newlines :: "string \<Rightarrow> string" where
  "replace_newlines [] = []"
| "replace_newlines (c # cs) =
     (if c = CHR 0x0D then
        (case cs of
           [] \<Rightarrow> [c]
         | d # ds \<Rightarrow> if d = CHR 0x0A then replace_newlines ds else c # replace_newlines cs)
      else if c = CHR 0x0A then replace_newlines cs
      else c # replace_newlines cs)"

text \<open>
  \<open>base64ToBlob\<close>; the blob is the list of its bytes, and the loop that copies the
  character codes of the binary string into the byte array is \<open>map\<close>.
\<close>

definition base64ToBlob :: "string \<Rightarrow> error + byte list" where
  "base64ToBlob base64 =
     (case atob (replace_newlines base64) of
        Inl e \<Rightarrow> Inl e
      | Inr binary \<Rightarrow> Inr (map of_char binary))"

text \<open>
  \<open>with_line_breaks p q\<close>: the string \<open>q\<close> is \<open>p\<close> with line breaks (a line feed, or a
  carriage return and a line feed) put in at any places.
\<close>

inductive with_line_breaks :: "string \<Rightarrow> string \<Rightarrow> bool" where
  wlb_Nil: "with_line_breaks [] []"
| wlb_LF: "with_line_breaks p q \<Longrightarrow> with_line_breaks p (CHR 0x0A # q)"
| wlb_CRLF: "with_line_breaks p q \<Longrightarrow> with_line_breaks p (CHR 0x0D # CHR 0x0A # q)"
| wlb_Char: "with_line_breaks p q \<Longrightarrow> c \<noteq> CHR 0x0A \<Longrightarrow> c \<noteq> CHR 0x0D \<Longrightarrow>
     with_line_breaks (c # p) (c # q)"

code_pred with_line_breaks .

text \<open>
  The encoding of a byte list without its padding, as six-bit values, and the padding
  alone.
\<close>

fun sextets :: "byte list \<Rightarrow> nat list" where
  "sextets (a # b # c # rest) =
     [unat a div 4, (unat a mod 4) * 16 + unat b div 16,
      (unat b mod 16) * 4 + unat c div 64, unat c mod 64] @ sextets rest"
| "sextets [a, b] = [unat a div 4, (unat a mod 4) * 16 + unat b div 16, (unat b mod 16) * 4]"
| "sextets [a] = [unat a div 4, (unat a mod 4) * 16]"
| "sextets [] = []"

fun padding :: "byte list \<Rightarrow> string" where
  "padding (a # b # c # rest) = padding rest"
| "padding [a, b] = ''=''"
| "padding [a] = ''==''"
| "padding [] = []"

subsection \<open>Sequences of operations on one handle\<close>

text \<open>
  The methods of the class that read or write the handle's fields or call the remote, as
  a caller invokes them. Only \<open>setDefaultBranch\<close> assigns a field after construction;
  every other method leaves the handle as it was.
\<close>

datatype op =
    SetDefaultBranch string
  | GetRepoInfo
  | ListFiles string "string option"
  | GetFileSha string "string option"
  | SaveFile string string "string option" "string option" bool
  | DownloadFile string "string option"
  | DeleteFile string "string option"

fun exec_op :: "'s octokit_api \<Rightarrow> GitStorage \<times> 's world \<Rightarrow> op \<Rightarrow> GitStorage \<times> 's world" where
  "exec_op api (h, w) (SetDefaultBranch b) = (snd (setDefaultBranch h b), w)"
| "exec_op api (h, w) GetRepoInfo = (h, snd (getRepoInfo api h w))"
| "exec_op api (h, w) (ListFiles folder b) = (h, snd (listFiles api h folder b w))"
| "exec_op api (h, w) (GetFileSha p b) = (h, snd (getFileSha api h p b w))"
| "exec_op api (h, w) (SaveFile c p m b skip) = (h, snd (saveFile api h c p m b skip w))"
| "exec_op api (h, w) (DownloadFile p b) = (h, snd (downloadFile api h p b w))"
| "exec_op api (h, w) (DeleteFile p b) = (h, snd (deleteFile api h p b w))"

definition run_ops :: "'s octokit_api \<Rightarrow> GitStorage \<times> 's world \<Rightarrow> op list \<Rightarrow> GitStorage \<times> 's world" where
  "run_ops api s ops = foldl (exec_op api) s ops"

subsection \<open>A small remote for concrete runs\<close>

text \<open>
  A remote that holds one branch as a list of paths with their entries. A read of the
  empty path lists the entries, a read of a stored path gives its entry, any other read
  is rejected with 404. Writes and deletes are rejected with 401 when the remote is not
  \<open>writable\<close>, and with 409 when the marker sent does not match the stored one.
\<close>

definition store_getContent ::
  "params \<Rightarrow> (string \<times> entry) list \<Rightarrow> (nat + content_data) \<times> (string \<times> entry) list" where
  "store_getContent ps s =
     (case map_of ps ''path'' of
        None \<Rightarrow> (Inl 422, s)
      | Some p \<Rightarrow>
          if p = [] then (Inr (Listing (map snd s)), s)
          else (case map_of s p of
                  None \<Rightarrow> (Inl 404, s)
                | Some f \<Rightarrow> (Inr (Single f), s)))"

definition store_write ::
  "bool \<Rightarrow> params \<Rightarrow> (string \<times> entry) list \<Rightarrow> (nat + string) \<times> (string \<times> entry) list" where
  "store_write writable ps s =
     (if \<not> writable then (Inl 401, s)
      else case (map_of ps ''path'', map_of ps ''content'') of
        (Some p, Some c) \<Rightarrow>
          if map_option sha (map_of s p) = map_of ps ''sha''
          then (Inr ''ok'',
                (p, \<lparr>sha = ''rev-'' @ c, encoding = Some ''base64'', content = Some c\<rparr>) # s)
          else (Inl 409, s)
      | _ \<Rightarrow> (Inl 422, s))"

definition store_delete ::
  "bool \<Rightarrow> params \<Rightarrow> (string \<times> entry) list \<Rightarrow> (nat + unit) \<times> (string \<times> entry) list" where
  "store_delete writable ps s =
     (if \<not> writable then (Inl 401, s)
      else case map_of ps ''path'' of
        Some p \<Rightarrow>
          if map_of s p \<noteq> None \<and> map_option sha (map_of s p) = map_of ps ''sha''
          then (Inr (), filter (\<lambda>kv. fst kv \<noteq> p) s)
          else (Inl 409, s)
      | None \<Rightarrow> (Inl 422, s))"

definition store_api :: "bool \<Rightarrow> (string \<times> entry) list octokit_api" where
  "store_api writable =
     \<lparr>repos_get = (\<lambda>ps s. (Inr ''repository'', s)),
      repos_getContent = store_getContent,
      repos_createOrUpdateFileContents = store_write writable,
      repos_deleteFile = store_delete writable\<rparr>"

definition store0 :: "(string \<times> entry) list world" where
  "store0 =
     \<lparr>remote = [(''a.txt'', \<lparr>sha = ''abc'', encoding = Some ''base64'', content = Some ''QQ==''\<rparr>)],
      requests = []\<rparr>"

definition handle0 :: GitStorage where
  "handle0 = constructor ''o'' ''r'' (Some \<lparr>opt_token = Some ''t'', opt_defaultBranch = Some ''dev''\<rparr>)"

section \<open>Properties\<close>

lemma issue_requests:
  "requests (snd (issue ep responder auth ps w)) = requests w @ [Request ep auth ps]"
  by (simp add: issue_def split: prod.splits)

lemma store_api_sel:
  "repos_get (store_api wr) = (\<lambda>ps s. (Inr ''repository'', s))"
  "repos_getContent (store_api wr) = store_getContent"
  "repos_createOrUpdateFileContents (store_api wr) = store_write wr"
  "repos_deleteFile (store_api wr) = store_delete wr"
  by (simp_all add: store_api_def)

lemma handle0_fields:
  "octokit handle0 = Some ''t''" "owner handle0 = ''o''" "repo handle0 = ''r''"
  "defaultBranch handle0 = ''dev''"
  by (simp_all add: handle0_def constructor_def or_else_def truthy_def Let_def)

lemma store0_fields:
  "remote store0 = [(''a.txt'', \<lparr>sha = ''abc'', encoding = Some ''base64'', content = Some ''QQ==''\<rparr>)]"
  "requests store0 = []"
  by (simp_all add: store0_def)

lemma getFileSha_requests:
  "requests (snd (getFileSha api h p branch w)) =
   requests w @ [Request ReposGetContent (octokit h)
     [(''owner'', owner h), (''repo'', repo h), (''path'', p),
      (''ref'', or_else branch (defaultBranch h))]]"
  by (simp add: getFileSha_def getFileSha_try_def issue_def Let_def split: prod.splits sum.splits)

lemma getFileSha_value: "\<exists>v. fst (getFileSha api h p branch w) = Inr v"
  by (simp add: getFileSha_def split: prod.splits sum.splits)

lemma getFileSha_store0_a:
  "getFileSha (store_api wr) handle0 ''a.txt'' None store0 =
   (Inr (Some ''abc''),
    \<lparr>remote = remote store0,
     requests = [Request ReposGetContent (Some ''t'')
        [(''owner'', ''o''), (''repo'', ''r''), (''path'', ''a.txt''), (''ref'', ''dev'')]]\<rparr>)"
  by (simp add: getFileSha_def getFileSha_try_def issue_def store_api_sel store_getContent_def
        store0_fields handle0_fields or_else_def truthy_def Let_def)

lemma getFileSha_store0_b:
  "getFileSha (store_api wr) handle0 ''b.txt'' None store0 =
   (Inr None,
    \<lparr>remote = remote store0,
     requests = [Request ReposGetContent (Some ''t'')
        [(''owner'', ''o''), (''repo'', ''r''), (''path'', ''b.txt''), (''ref'', ''dev'')]]\<rparr>)"
  by (simp add: getFileSha_def getFileSha_try_def issue_def store_api_sel store_getContent_def
        store0_fields handle0_fields or_else_def truthy_def Let_def)

text \<open>
  C5. The version-marker probe \<open>getFileSha\<close> never raises: for every path, branch and
  remote its outcome is a value. The value is the marker of the entry when the read
  resolves to a single file entry, and \<open>undefined\<close> whenever the read is rejected,
  whatever the status of the rejection (absence, permission denial, network failure).
\<close>

theorem getFileSha_never_raises:
  "(\<exists>v. fst (getFileSha api h p branch w) = Inr v) \<and>
   (fst (repos_getContent api
           [(''owner'', owner h), (''repo'', repo h), (''path'', p),
            (''ref'', or_else branch (defaultBranch h))] (remote w)) = Inr (Single f)
      \<longrightarrow> fst (getFileSha api h p branch w) = Inr (Some (sha f))) \<and>
   (fst (repos_getContent api
           [(''owner'', owner h), (''repo'', repo h), (''path'', p),
            (''ref'', or_else branch (defaultBranch h))] (remote w)) = Inl status
      \<longrightarrow> fst (getFileSha api h p branch w) = Inr None)"
  by (auto simp: getFileSha_def getFileSha_try_def issue_def Let_def
           split: prod.splits sum.splits content_data.splits)

text \<open>An instance of C5 on the small remote.\<close>

theorem getFileSha_never_raises_witness:
  "fst (repos_getContent (store_api True)
          [(''owner'', ''o''), (''repo'', ''r''), (''path'', ''a.txt''), (''ref'', ''dev'')]
          (remote store0)) =
     Inr (Single \<lparr>sha = ''abc'', encoding = Some ''base64'', content = Some ''QQ==''\<rparr>) \<and>
   fst (getFileSha (store_api True) handle0 ''a.txt'' None store0) = Inr (Some ''abc'') \<and>
   fst (repos_getContent (store_api True)
          [(''owner'', ''o''), (''repo'', ''r''), (''path'', ''b.txt''), (''ref'', ''dev'')]
          (remote store0)) = Inl 404 \<and>
   fst (getFileSha (store_api True) handle0 ''b.txt'' None store0) = Inr None"
proof -
  have a: "fst (repos_getContent (store_api True)
          [(''owner'', ''o''), (''repo'', ''r''), (''path'', ''a.txt''), (''ref'', ''dev'')]
          (remote store0)) =
     Inr (Single \<lparr>sha = ''abc'', encoding = Some ''base64'', content = Some ''QQ==''\<rparr>)"
    by (simp add: store_api_sel store_getContent_def store0_fields)
  have b: "fst (repos_getContent (store_api True)
          [(''owner'', ''o''), (''repo'', ''r''), (''path'', ''b.txt''), (''ref'', ''dev'')]
          (remote store0)) = Inl 404"
    by (simp add: store_api_sel store_getContent_def store0_fields)
  have d: "or_else None ''dev'' = ''dev''"
    by (simp add: or_else_def truthy_def)
  show ?thesis
    using a b
      getFileSha_never_raises [of "store_api True" handle0 "''a.txt''" None store0
        "\<lparr>sha = ''abc'', encoding = Some ''base64'', content = Some ''QQ==''\<rparr>" 404]
      getFileSha_never_raises [of "store_api True" handle0 "''b.txt''" None store0
        "\<lparr>sha = ''abc'', encoding = Some ''base64'', content = Some ''QQ==''\<rparr>" 404]
    by (simp add: handle0_fields d)
qed

text \<open>
  C1. For every path and branch, \<open>saveFile\<close> with \<open>skipCheck = false\<close> and no commit
  message first probes for the version marker and then issues a single write. If the
  probe returns a marker \<open>M\<close> (a non-empty string: the source tests the probe's result for
  truthiness), the write's message is \<open>Update {path}\<close> and it carries \<open>M\<close> under the
  key \<open>sha\<close>; if the probe returns no marker (\<open>undefined\<close>, or the empty string, which
  the source treats alike), the message is \<open>Create {path}\<close> and the write has no key
  \<open>sha\<close>.
\<close>

theorem saveFile_probe_then_write:
  "(fst (getFileSha api h p branch w) = Inr (Some M) \<and> M \<noteq> [] \<longrightarrow>
      requests (snd (saveFile api h base64 p None branch False w)) =
      requests w @
      [Request ReposGetContent (octokit h)
         [(''owner'', owner h), (''repo'', repo h), (''path'', p),
          (''ref'', or_else branch (defaultBranch h))],
       Request ReposCreateOrUpdateFileContents (octokit h)
         [(''owner'', owner h), (''repo'', repo h), (''path'', p),
          (''message'', ''Update '' @ p), (''content'', base64), (''sha'', M),
          (''useBranch'', or_else branch (defaultBranch h))]]) \<and>
   (fst (getFileSha api h p branch w) = Inr None \<or>
    fst (getFileSha api h p branch w) = Inr (Some []) \<longrightarrow>
      requests (snd (saveFile api h base64 p None branch False w)) =
      requests w @
      [Request ReposGetContent (octokit h)
         [(''owner'', owner h), (''repo'', repo h), (''path'', p),
          (''ref'', or_else branch (defaultBranch h))],
       Request ReposCreateOrUpdateFileContents (octokit h)
         [(''owner'', owner h), (''repo'', repo h), (''path'', p),
          (''message'', ''Create '' @ p), (''content'', base64),
          (''useBranch'', or_else branch (defaultBranch h))]])"
proof -
  obtain r w1 where g: "getFileSha api h p branch w = (r, w1)"
    by (cases "getFileSha api h p branch w")
  have w1: "requests w1 = requests w @ [Request ReposGetContent (octokit h)
     [(''owner'', owner h), (''repo'', repo h), (''path'', p),
      (''ref'', or_else branch (defaultBranch h))]]"
    using getFileSha_requests [of api h p branch w] g by simp
  show ?thesis
    using g w1
    by (auto simp: saveFile_def Let_def issue_requests truthy_def nullish_else_def)
qed

text \<open>An instance of C1 on the small remote.\<close>

theorem saveFile_probe_then_write_witness:
  "fst (getFileSha (store_api True) handle0 ''a.txt'' None store0) = Inr (Some ''abc'') \<and>
   requests (snd (saveFile (store_api True) handle0 ''QUI='' ''a.txt'' None None False store0)) =
     [Request ReposGetContent (Some ''t'')
        [(''owner'', ''o''), (''repo'', ''r''), (''path'', ''a.txt''), (''ref'', ''dev'')],
      Request ReposCreateOrUpdateFileContents (Some ''t'')
        [(''owner'', ''o''), (''repo'', ''r''), (''path'', ''a.txt''),
         (''message'', ''Update a.txt''), (''content'', ''QUI=''), (''sha'', ''abc''),
         (''useBranch'', ''dev'')]] \<and>
   fst (getFileSha (store_api True) handle0 ''b.txt'' None store0) = Inr None \<and>
   requests (snd (saveFile (store_api True) handle0 ''QUI='' ''b.txt'' None None False store0)) =
     [Request ReposGetContent (Some ''t'')
        [(''owner'', ''o''), (''repo'', ''r''), (''path'', ''b.txt''), (''ref'', ''dev'')],
      Request ReposCreateOrUpdateFileContents (Some ''t'')
        [(''owner'', ''o''), (''repo'', ''r''), (''path'', ''b.txt''),
         (''message'', ''Create b.txt''), (''content'', ''QUI=''),
         (''useBranch'', ''dev'')]]"
proof -
  have a: "fst (getFileSha (store_api True) handle0 ''a.txt'' None store0) = Inr (Some ''abc'')"
    by (simp add: getFileSha_store0_a)
  have b: "fst (getFileSha (store_api True) handle0 ''b.txt'' None store0) = Inr None"
    by (simp add: getFileSha_store0_b)
  have d: "or_else None ''dev'' = ''dev''"
    by (simp add: or_else_def truthy_def)
  show ?thesis
    using a b
      saveFile_probe_then_write [of "store_api True" handle0 "''a.txt''" None store0 "''abc''" "''QUI=''"]
      saveFile_probe_then_write [of "store_api True" handle0 "''b.txt''" None store0 "''abc''" "''QUI=''"]
    by (simp add: handle0_fields store0_fields d)
qed

text \<open>
  C2, as stated, fails where the remote rejects the delete request: the probe returns the
  marker \<open>abc\<close>, and \<open>deleteFile\<close> does not return the record but fails with the
  remote's rejection (here 401, a remote that does not accept writes).
\<close>

theorem deleteFile_returns_record_counterexample:
  "fst (getFileSha (store_api False) handle0 ''a.txt'' None store0) = Inr (Some ''abc'') \<and>
   fst (deleteFile (store_api False) handle0 ''a.txt'' None store0) = Inl (RequestError 401)"
  by (simp add: deleteFile_def getFileSha_store0_a Let_def truthy_def issue_def store_api_sel
        store_delete_def)

text \<open>
  C2, amended. \<open>deleteFile\<close> fails with \<open>File not found\<close>, having issued the probe and
  no delete request, when the probe returns no marker (\<open>undefined\<close> or the empty string).
  When the probe returns a marker \<open>M\<close> it does not fail with \<open>File not found\<close>: it
  issues exactly one delete request, carrying \<open>M\<close> and the message \<open>Delete {path}\<close>,
  and returns the record \<open>{path, deleted: true}\<close> if the remote accepts that request;
  if the remote rejects it, \<open>deleteFile\<close> fails with that rejection.
\<close>

theorem deleteFile_not_found_or_delete:
  "(fst (getFileSha api h p branch w) = Inr None \<or>
    fst (getFileSha api h p branch w) = Inr (Some []) \<longrightarrow>
      fst (deleteFile api h p branch w) = Inl (Error ''File not found'') \<and>
      requests (snd (deleteFile api h p branch w)) =
        requests w @
        [Request ReposGetContent (octokit h)
           [(''owner'', owner h), (''repo'', repo h), (''path'', p),
            (''ref'', or_else branch (defaultBranch h))]]) \<and>
   (fst (getFileSha api h p branch w) = Inr (Some M) \<and> M \<noteq> [] \<longrightarrow>
      fst (deleteFile api h p branch w) \<noteq> Inl (Error ''File not found'') \<and>
      requests (snd (deleteFile api h p branch w)) =
        requests w @
        [Request ReposGetContent (octokit h)
           [(''owner'', owner h), (''repo'', repo h), (''path'', p),
            (''ref'', or_else branch (defaultBranch h))],
         Request ReposDeleteFile (octokit h)
           [(''owner'', owner h), (''repo'', repo h), (''path'', p),
            (''message'', ''Delete '' @ p), (''sha'', M),
            (''useBranch'', or_else branch (defaultBranch h))]] \<and>
      fst (deleteFile api h p branch w) =
        (case fst (repos_deleteFile api
                     [(''owner'', owner h), (''repo'', repo h), (''path'', p),
                      (''message'', ''Delete '' @ p), (''sha'', M),
                      (''useBranch'', or_else branch (defaultBranch h))]
                     (remote (snd (getFileSha api h p branch w)))) of
           Inr u \<Rightarrow> Inr \<lparr>path = p, deleted = True\<rparr>
         | Inl status \<Rightarrow> Inl (RequestError status)))"
proof -
  obtain r w1 where g: "getFileSha api h p branch w = (r, w1)"
    by (cases "getFileSha api h p branch w")
  have w1: "requests w1 = requests w @ [Request ReposGetContent (octokit h)
     [(''owner'', owner h), (''repo'', repo h), (''path'', p),
      (''ref'', or_else branch (defaultBranch h))]]"
    using getFileSha_requests [of api h p branch w] g by simp
  show ?thesis
    using g w1
    by (auto simp: deleteFile_def Let_def issue_def truthy_def split: prod.splits sum.splits)
qed

text \<open>An instance of C2, amended on the small remote.\<close>

theorem deleteFile_not_found_or_delete_witness:
  "fst (getFileSha (store_api True) handle0 ''b.txt'' None store0) = Inr None \<and>
   fst (deleteFile (store_api True) handle0 ''b.txt'' None store0) = Inl (Error ''File not found'') \<and>
   requests (snd (deleteFile (store_api True) handle0 ''b.txt'' None store0)) =
     [Request ReposGetContent (Some ''t'')
        [(''owner'', ''o''), (''repo'', ''r''), (''path'', ''b.txt''), (''ref'', ''dev'')]] \<and>
   fst (getFileSha (store_api True) handle0 ''a.txt'' None store0) = Inr (Some ''abc'') \<and>
   requests (snd (deleteFile (store_api True) handle0 ''a.txt'' None store0)) =
     [Request ReposGetContent (Some ''t'')
        [(''owner'', ''o''), (''repo'', ''r''), (''path'', ''a.txt''), (''ref'', ''dev'')],
      Request ReposDeleteFile (Some ''t'')
        [(''owner'', ''o''), (''repo'', ''r''), (''path'', ''a.txt''),
         (''message'', ''Delete a.txt''), (''sha'', ''abc''), (''useBranch'', ''dev'')]] \<and>
   fst (deleteFile (store_api True) handle0 ''a.txt'' None store0) =
     Inr \<lparr>path = ''a.txt'', deleted = True\<rparr>"
proof -
  have a: "fst (getFileSha (store_api True) handle0 ''a.txt'' None store0) = Inr (Some ''abc'')"
    by (simp add: getFileSha_store0_a)
  have b: "fst (getFileSha (store_api True) handle0 ''b.txt'' None store0) = Inr None"
    by (simp add: getFileSha_store0_b)
  have d: "or_else None ''dev'' = ''dev''"
    by (simp add: or_else_def truthy_def)
  have r: "fst (repos_deleteFile (store_api True)
                 [(''owner'', ''o''), (''repo'', ''r''), (''path'', ''a.txt''),
                  (''message'', ''Delete a.txt''), (''sha'', ''abc''), (''useBranch'', ''dev'')]
                 (remote (snd (getFileSha (store_api True) handle0 ''a.txt'' None store0)))) = Inr ()"
    by (simp add: getFileSha_store0_a store_api_sel store_delete_def store0_fields)
  show ?thesis
    using a b
      deleteFile_not_found_or_delete [of "store_api True" handle0 "''b.txt''" None store0 "''abc''"]
      deleteFile_not_found_or_delete [of "store_api True" handle0 "''a.txt''" None store0 "''abc''"]
    by (simp add: handle0_fields store0_fields d r)
qed

text \<open>
  C3 at a failing input: on a handle whose default branch is \<open>dev\<close>, \<open>listFiles\<close> and
  \<open>downloadFile\<close> called without a branch read from \<open>main\<close>, the literal default of
  their parameter, not from the handle's default branch.
\<close>

theorem listFiles_omitted_branch_is_main:
  "defaultBranch handle0 = ''dev'' \<and>
   requests (snd (listFiles (store_api True) handle0 ''assets'' None store0)) =
     [Request ReposGetContent (Some ''t'')
        [(''owner'', ''o''), (''repo'', ''r''), (''path'', ''assets''), (''ref'', ''main'')]] \<and>
   requests (snd (downloadFile (store_api True) handle0 ''a.txt'' None store0)) =
     [Request ReposGetContent (Some ''t'')
        [(''owner'', ''o''), (''repo'', ''r''), (''path'', ''a.txt''), (''ref'', ''main'')]]"
  by (simp add: listFiles_def downloadFile_def default_param_def issue_def Let_def
        handle0_fields store0_fields split: prod.splits sum.splits content_data.splits)

text \<open>
  C4. \<open>setDefaultBranch\<close> on the empty string fails with the error
  \<open>Branch name cannot be empty\<close> and leaves the handle as it was; on a non-empty string
  it succeeds and replaces the stored default, which a later call that omits the branch
  (here the probe \<open>getFileSha\<close>) sends as the \<open>ref\<close> of its request.
\<close>

theorem setDefaultBranch_empty_or_replace:
  "(branch = [] \<longrightarrow>
      setDefaultBranch h branch = (Inl (Error ''Branch name cannot be empty''), h)) \<and>
   (branch \<noteq> [] \<longrightarrow>
      fst (setDefaultBranch h branch) = Inr () \<and>
      snd (setDefaultBranch h branch) = h\<lparr>defaultBranch := branch\<rparr> \<and>
      requests (snd (getFileSha api (snd (setDefaultBranch h branch)) p None w)) =
        requests w @
        [Request ReposGetContent (octokit h)
           [(''owner'', owner h), (''repo'', repo h), (''path'', p), (''ref'', branch)]])"
  by (simp add: setDefaultBranch_def truthy_def getFileSha_requests or_else_def)

text \<open>An instance of C4 on the small remote.\<close>

theorem setDefaultBranch_empty_or_replace_witness:
  "setDefaultBranch handle0 [] = (Inl (Error ''Branch name cannot be empty''), handle0) \<and>
   defaultBranch (snd (setDefaultBranch handle0 [])) = ''dev'' \<and>
   fst (setDefaultBranch handle0 ''feature'') = Inr () \<and>
   defaultBranch (snd (setDefaultBranch handle0 ''feature'')) = ''feature'' \<and>
   requests (snd (getFileSha (store_api True) (snd (setDefaultBranch handle0 ''feature''))
                    ''a.txt'' None store0)) =
     [Request ReposGetContent (Some ''t'')
        [(''owner'', ''o''), (''repo'', ''r''), (''path'', ''a.txt''), (''ref'', ''feature'')]]"
  using setDefaultBranch_empty_or_replace [of "[]" handle0 "store_api True" "''a.txt''" store0]
    setDefaultBranch_empty_or_replace [of "''feature''" handle0 "store_api True" "''a.txt''" store0]
  by (auto simp: handle0_fields store0_fields)

text \<open>
  C7. For every folder path and branch, \<open>listFiles\<close> returns the listing when the remote
  answers with an array, and the empty sequence (a value, not an error, and not a
  one-element sequence) when it answers with anything else: a single file entry, or no
  data.
\<close>

theorem listFiles_listing_or_empty:
  "(fst (repos_getContent api
           [(''owner'', owner h), (''repo'', repo h), (''path'', folder),
            (''ref'', default_param branch ''main'')] (remote w)) = Inr (Listing es)
      \<longrightarrow> fst (listFiles api h folder branch w) = Inr es) \<and>
   (fst (repos_getContent api
           [(''owner'', owner h), (''repo'', repo h), (''path'', folder),
            (''ref'', default_param branch ''main'')] (remote w)) = Inr (Single f)
      \<longrightarrow> fst (listFiles api h folder branch w) = Inr []) \<and>
   (fst (repos_getContent api
           [(''owner'', owner h), (''repo'', repo h), (''path'', folder),
            (''ref'', default_param branch ''main'')] (remote w)) = Inr NoData
      \<longrightarrow> fst (listFiles api h folder branch w) = Inr [])"
  by (auto simp: listFiles_def issue_def Let_def split: prod.splits sum.splits)

text \<open>An instance of C7 on the small remote.\<close>

theorem listFiles_listing_or_empty_witness:
  "fst (repos_getContent (store_api True)
          [(''owner'', ''o''), (''repo'', ''r''), (''path'', []), (''ref'', ''main'')]
          (remote store0)) =
     Inr (Listing [\<lparr>sha = ''abc'', encoding = Some ''base64'', content = Some ''QQ==''\<rparr>]) \<and>
   fst (listFiles (store_api True) handle0 [] None store0) =
     Inr [\<lparr>sha = ''abc'', encoding = Some ''base64'', content = Some ''QQ==''\<rparr>] \<and>
   fst (repos_getContent (store_api True)
          [(''owner'', ''o''), (''repo'', ''r''), (''path'', ''a.txt''), (''ref'', ''main'')]
          (remote store0)) =
     Inr (Single \<lparr>sha = ''abc'', encoding = Some ''base64'', content = Some ''QQ==''\<rparr>) \<and>
   fst (listFiles (store_api True) handle0 ''a.txt'' None store0) = Inr []"
proof -
  have a: "fst (repos_getContent (store_api True)
          [(''owner'', ''o''), (''repo'', ''r''), (''path'', []), (''ref'', ''main'')]
          (remote store0)) =
     Inr (Listing [\<lparr>sha = ''abc'', encoding = Some ''base64'', content = Some ''QQ==''\<rparr>])"
    by (simp add: store_api_sel store_getContent_def store0_fields)
  have b: "fst (repos_getContent (store_api True)
          [(''owner'', ''o''), (''repo'', ''r''), (''path'', ''a.txt''), (''ref'', ''main'')]
          (remote store0)) =
     Inr (Single \<lparr>sha = ''abc'', encoding = Some ''base64'', content = Some ''QQ==''\<rparr>)"
    by (simp add: store_api_sel store_getContent_def store0_fields)
  have d: "default_param None ''main'' = ''main''"
    by (simp add: default_param_def)
  show ?thesis
    using a b
      listFiles_listing_or_empty [of "store_api True" handle0 "[]" None store0
        "[\<lparr>sha = ''abc'', encoding = Some ''base64'', content = Some ''QQ==''\<rparr>]"
        "\<lparr>sha = ''abc'', encoding = Some ''base64'', content = Some ''QQ==''\<rparr>"]
      listFiles_listing_or_empty [of "store_api True" handle0 "''a.txt''" None store0
        "[\<lparr>sha = ''abc'', encoding = Some ''base64'', content = Some ''QQ==''\<rparr>]"
        "\<lparr>sha = ''abc'', encoding = Some ''base64'', content = Some ''QQ==''\<rparr>"]
    by (simp add: handle0_fields d)
qed

lemma constructor_defaultBranch: "defaultBranch (constructor own rep opts) \<noteq> []"
  by (simp add: constructor_def or_else_def truthy_def Let_def split: option.splits)

lemma exec_op_defaultBranch:
  "defaultBranch (fst s) \<noteq> [] \<Longrightarrow> defaultBranch (fst (exec_op api s x)) \<noteq> []"
  by (cases s; cases x) (simp_all add: setDefaultBranch_def truthy_def)

lemma run_ops_defaultBranch:
  "defaultBranch (fst s) \<noteq> [] \<Longrightarrow> defaultBranch (fst (run_ops api s ops)) \<noteq> []"
  unfolding run_ops_def
  by (induction ops arbitrary: s) (simp_all add: exec_op_defaultBranch)

text \<open>
  C9. The stored default branch is never empty: the constructor puts \<open>main\<close> in place of
  an absent or empty \<open>defaultBranch\<close> option, and after any sequence of operations on
  the handle, on any remote, the stored default branch is still non-empty.
\<close>

theorem defaultBranch_never_empty:
  "defaultBranch (constructor own rep opts) \<noteq> [] \<and>
   constructor own rep None = \<lparr>octokit = None, owner = own, repo = rep, token = None,
                                defaultBranch = ''main''\<rparr> \<and>
   defaultBranch (constructor own rep (Some \<lparr>opt_token = t, opt_defaultBranch = None\<rparr>)) = ''main'' \<and>
   defaultBranch (constructor own rep (Some \<lparr>opt_token = t, opt_defaultBranch = Some []\<rparr>)) = ''main'' \<and>
   defaultBranch (fst (run_ops api (constructor own rep opts, w) ops)) \<noteq> []"
  using run_ops_defaultBranch [of "(constructor own rep opts, w)" api ops]
  by (simp add: constructor_defaultBranch)
    (simp add: constructor_def or_else_def truthy_def Let_def)

text \<open>
  C10. \<open>saveFile\<close> called with the empty string as commit message sends that empty
  string as the message of the write, whatever the probe found and whether or not it was
  skipped: no \<open>Create {path}\<close> or \<open>Update {path}\<close> is synthesised.
\<close>

theorem saveFile_empty_message_verbatim:
  "\<exists>ps. last (requests (snd (saveFile api h base64 p (Some []) branch skipCheck w))) =
           Request ReposCreateOrUpdateFileContents (octokit h) ps \<and>
         map_of ps ''message'' = Some [] \<and>
         map_of ps ''message'' \<noteq> Some (''Create '' @ p) \<and>
         map_of ps ''message'' \<noteq> Some (''Update '' @ p)"
proof -
  obtain r w1 where g: "(if \<not> skipCheck then getFileSha api h p branch w else (Inr None, w)) = (r, w1)"
    by (cases "if \<not> skipCheck then getFileSha api h p branch w else (Inr None, w)")
  have "\<exists>v. r = Inr v"
    using g getFileSha_value [of api h p branch w]
    by (auto split: if_splits)
  then obtain v where r: "r = Inr v" ..
  show ?thesis
    unfolding saveFile_def Let_def g r
    by (simp add: issue_requests nullish_else_def)
qed

subsection \<open>The path of a download URL\<close>

lemma RegExp_OWNER_REPO:
  "RegExp (''https://raw'' @ [backslash] @ ''.githubusercontent'' @ [backslash] @ ''.com/''
           @ ''OWNER'' @ ''/'' @ ''REPO'' @ ''/[^/]+/(.+)'') =
   Some (map (One \<circ> Lit) ''https://raw.githubusercontent.com/OWNER/REPO/'' @
         [Many (NotIn ''/''), One (Lit CHR ''/''), Group [Many AnyChar]])"
  by (simp add: RegExp_def backslash_def syntax_chars_def)

text \<open>
  The examples of the source's comment and of the spec, on a handle for \<open>OWNER/REPO\<close>:
  the path of a raw URL, the same with a query, and \<open>null\<close> for another owner.
\<close>

lemma getPathFromDownloadUrl_examples:
  "getPathFromDownloadUrl (constructor ''OWNER'' ''REPO'' None)
     ''https://raw.githubusercontent.com/OWNER/REPO/main/folder/file.txt'' =
   Some (Some ''folder/file.txt'')"
  "getPathFromDownloadUrl (constructor ''OWNER'' ''REPO'' None)
     ''https://raw.githubusercontent.com/OWNER/REPO/main/folder/file.txt?token=XYZ'' =
   Some (Some ''folder/file.txt'')"
  "getPathFromDownloadUrl (constructor ''OWNER'' ''REPO'' None)
     ''https://raw.githubusercontent.com/OTHER/REPO/main/folder/file.txt'' =
   Some None"
  by (simp_all add: getPathFromDownloadUrl_def constructor_def or_else_def truthy_def
        RegExp_def backslash_def syntax_chars_def)

text \<open>
  C6 at a failing input: the handle is for the repository \<open>my.repo\<close> of owner \<open>a\<close>, and
  the URL names another repository of that owner, \<open>my-repo\<close>. The dot of the repository
  name goes into the pattern unescaped and matches the hyphen, so the result is the path
  and not \<open>null\<close>.
\<close>

theorem getPathFromDownloadUrl_other_repo_matches:
  "getPathFromDownloadUrl (constructor ''a'' ''my.repo'' None)
     ''https://raw.githubusercontent.com/a/my-repo/main/folder/file.txt'' =
   Some (Some ''folder/file.txt'')"
  by (simp add: getPathFromDownloadUrl_def constructor_def or_else_def truthy_def
        RegExp_def backslash_def syntax_chars_def)

subsection \<open>The base64 round trip\<close>

text \<open>
  Three bytes are packed into four six-bit values and unpacked again; the facts below
  are the arithmetic of that packing, for bytes as natural numbers under 256.
\<close>

lemma div_packed: "x < k \<Longrightarrow> (m * k + x) div k = (m::nat)"
  by simp

lemma mod_packed: "x < k \<Longrightarrow> (m * k + x) mod k = (x::nat)"
  by simp

lemma byte_div_16: "(b::nat) < 256 \<Longrightarrow> b div 16 < 16"
  by (simp add: less_mult_imp_div_less)

lemma byte_div_64: "(b::nat) < 256 \<Longrightarrow> b div 64 < 4"
  by (simp add: less_mult_imp_div_less)

lemma byte_div_4: "(b::nat) < 256 \<Longrightarrow> b div 4 < 64"
  by (simp add: less_mult_imp_div_less)

lemma first_byte: "(b::nat) < 256 \<Longrightarrow> a div 4 * 4 + ((a mod 4) * 16 + b div 16) div 16 = a"
  by (simp add: div_packed byte_div_16)

lemma second_byte: "(b::nat) < 256 \<Longrightarrow> c < 256 \<Longrightarrow>
    ((a mod 4) * 16 + b div 16) mod 16 * 16 + ((b mod 16) * 4 + c div 64) div 4 = b"
  by (simp add: div_packed mod_packed byte_div_16 byte_div_64)

lemma third_byte: "(c::nat) < 256 \<Longrightarrow> ((b mod 16) * 4 + c div 64) mod 4 * 64 + c mod 64 = c"
  by (simp add: mod_packed byte_div_64)

lemma second_byte_padded: "(b::nat) < 256 \<Longrightarrow>
    ((a mod 4) * 16 + b div 16) mod 16 * 16 + ((b mod 16) * 4) div 4 = b"
  by (simp add: mod_packed byte_div_16)

lemma first_byte_padded: "a div 4 * 4 + ((a mod 4) * 16) div 16 = (a::nat)"
  by simp

lemma second_sextet: "(a::nat) < 256 \<Longrightarrow> b < 256 \<Longrightarrow> (a mod 4) * 16 + b div 16 < 64"
  using byte_div_16 [of b] mod_less_divisor [of 4 a] by linarith

lemma third_sextet: "(b::nat) < 256 \<Longrightarrow> c < 256 \<Longrightarrow> (b mod 16) * 4 + c div 64 < 64"
  using byte_div_64 [of c] mod_less_divisor [of 16 b] by linarith

lemma second_sextet_padded: "(a mod 4) * 16 < (64::nat)"
  using mod_less_divisor [of 4 a] by linarith

lemma third_sextet_padded: "(b mod 16) * 4 < (64::nat)"
  using mod_less_divisor [of 16 b] by linarith

lemma base64_alphabet_props:
  "length base64_alphabet = 64" "distinct base64_alphabet"
  by (simp_all add: base64_alphabet_def)

lemma index_of_nth: "distinct xs \<Longrightarrow> i < length xs \<Longrightarrow> index_of (xs ! i) xs = Some i"
proof (induction xs arbitrary: i)
  case Nil
  then show ?case by simp
next
  case (Cons x xs)
  show ?case
  proof (cases i)
    case 0
    then show ?thesis by simp
  next
    case (Suc j)
    with Cons.prems have "xs ! j \<in> set xs" "x \<notin> set xs" by auto
    then have "xs ! j \<noteq> x" by auto
    with Cons Suc show ?thesis by auto
  qed
qed

lemma index_of_base64_char: "i < 64 \<Longrightarrow> index_of (base64_char i) base64_alphabet = Some i"
  unfolding base64_char_def
  by (rule index_of_nth) (simp_all add: base64_alphabet_props)

lemma base64_char_in: "i < 64 \<Longrightarrow> base64_char i \<in> set base64_alphabet"
  unfolding base64_char_def by (simp add: base64_alphabet_props)

lemma alphabet_excludes:
  "CHR ''='' \<notin> set base64_alphabet" "CHR '','' \<notin> set base64_alphabet"
  "CHR 0x0A \<notin> set base64_alphabet" "CHR 0x0D \<notin> set base64_alphabet"
  "CHR 0x09 \<notin> set base64_alphabet" "CHR 0x0C \<notin> set base64_alphabet"
  "CHR 0x20 \<notin> set base64_alphabet"
  by (simp_all add: base64_alphabet_def)

lemma base64_encode_sextets: "base64_encode X = map base64_char (sextets X) @ padding X"
  by (induction X rule: base64_encode.induct) simp_all

lemma unat_byte: "unat (a :: byte) < 256"
  using unsigned_less [of a] by simp

lemma sextets_lt: "s \<in> set (sextets X) \<Longrightarrow> s < 64"
proof (induction X arbitrary: s rule: sextets.induct)
  case (1 a b c rest)
  have "unat a div 4 < 64" "(unat a mod 4) * 16 + unat b div 16 < 64"
    "(unat b mod 16) * 4 + unat c div 64 < 64" "unat c mod 64 < 64"
    by (simp_all add: byte_div_4 second_sextet third_sextet unat_byte)
  with 1 show ?case by auto
next
  case (2 a b)
  have "unat a div 4 < 64" "(unat a mod 4) * 16 + unat b div 16 < 64"
    "(unat b mod 16) * 4 < 64"
    by (simp_all add: byte_div_4 second_sextet third_sextet_padded unat_byte)
  with 2 show ?case by auto
next
  case (3 a)
  have "unat a div 4 < 64" "(unat a mod 4) * 16 < 64"
    by (simp_all add: byte_div_4 second_sextet_padded unat_byte)
  with 3 show ?case by auto
next
  case 4
  then show ?case by simp
qed

lemma decode_sextets_sextets: "decode_sextets (sextets X) = map unat X"
proof (induction X rule: sextets.induct)
  case (1 a b c rest)
  have "unat a div 4 * 4 + ((unat a mod 4) * 16 + unat b div 16) div 16 = unat a"
    "((unat a mod 4) * 16 + unat b div 16) mod 16 * 16 + ((unat b mod 16) * 4 + unat c div 64) div 4 = unat b"
    "((unat b mod 16) * 4 + unat c div 64) mod 4 * 64 + unat c mod 64 = unat c"
    by (simp_all only: first_byte second_byte third_byte unat_byte)
  with 1 show ?case by simp
next
  case (2 a b)
  have "unat a div 4 * 4 + ((unat a mod 4) * 16 + unat b div 16) div 16 = unat a"
    "((unat a mod 4) * 16 + unat b div 16) mod 16 * 16 + ((unat b mod 16) * 4) div 4 = unat b"
    by (simp_all only: first_byte second_byte_padded unat_byte)
  then show ?case by simp
next
  case (3 a)
  have "unat a div 4 * 4 + ((unat a mod 4) * 16) div 16 = unat a"
    by (rule first_byte_padded)
  then show ?case by simp
next
  case 4
  then show ?case by simp
qed

lemma length_sextets_padding: "(length (sextets X) + length (padding X)) mod 4 = 0"
  by (induction X rule: sextets.induct) simp_all

lemma length_sextets_mod: "length (sextets X) mod 4 \<noteq> 1"
  by (induction X rule: sextets.induct) simp_all

lemma those_index_of:
  "(\<And>s. s \<in> set sx \<Longrightarrow> s < 64) \<Longrightarrow>
   those (map (\<lambda>c. index_of c base64_alphabet) (map base64_char sx)) = Some sx"
  by (induction sx) (simp_all add: index_of_base64_char)

lemma of_char_char_of_unat: "(of_char (char_of (unat (a :: byte))) :: byte) = a"
proof -
  have n: "(of_char (char_of (unat a)) :: nat) = unat a"
    using unat_byte [of a] by simp
  have "(of_char (char_of (unat a)) :: byte) = of_nat (of_char (char_of (unat a)) :: nat)"
    by (simp only: of_nat_of_char)
  also have "\<dots> = of_nat (unat a)"
    by (simp only: n)
  also have "\<dots> = a"
    by simp
  finally show ?thesis .
qed

lemma padding_cases: "padding X = [] \<or> padding X = ''='' \<or> padding X = ''==''"
  by (induction X rule: padding.induct) simp_all

lemma sextets_chars: "c \<in> set (map base64_char (sextets X)) \<Longrightarrow> c \<in> set base64_alphabet"
  by (auto simp: sextets_lt base64_char_in)

lemma base64_encode_chars:
  "c \<in> set (base64_encode X) \<Longrightarrow> c \<in> set base64_alphabet \<or> c = CHR ''=''"
  using padding_cases [of X] sextets_chars [of c X]
  by (auto simp: base64_encode_sextets)

lemma base64_encode_no_whitespace:
  "filter (\<lambda>c. c \<notin> set ascii_whitespace) (base64_encode X) = base64_encode X"
proof -
  have "c \<notin> set ascii_whitespace" if "c \<in> set (base64_encode X)" for c
    using base64_encode_chars [OF that] alphabet_excludes
    by (auto simp: ascii_whitespace_def)
  then show ?thesis by simp
qed

lemma last_sextets_chars:
  "sextets X \<noteq> [] \<Longrightarrow> last (map base64_char (sextets X)) \<noteq> CHR ''=''"
proof -
  assume "sextets X \<noteq> []"
  then have "last (map base64_char (sextets X)) \<in> set (map base64_char (sextets X))"
    by (intro last_in_set) simp
  then have "last (map base64_char (sextets X)) \<in> set base64_alphabet"
    by (rule sextets_chars)
  with alphabet_excludes(1) show ?thesis by auto
qed

lemma remove_padding_encode:
  "remove_padding (base64_encode X) = map base64_char (sextets X)"
proof -
  let ?m = "map base64_char (sextets X)"
  have len: "(length ?m + length (padding X)) mod 4 = 0"
    using length_sextets_padding [of X] by simp
  consider "padding X = []" | "padding X = ''=''" | "padding X = ''==''"
    using padding_cases by blast
  then show ?thesis
  proof cases
    case 1
    show ?thesis
    proof (cases "sextets X = []")
      case True
      with 1 show ?thesis by (simp add: base64_encode_sextets remove_padding_def)
    next
      case False
      with 1 last_sextets_chars [OF False] show ?thesis
        by (simp add: base64_encode_sextets remove_padding_def)
    qed
  next
    case 2
    with len have ne: "sextets X \<noteq> []" by auto
    from 2 len last_sextets_chars [OF ne] ne show ?thesis
      by (simp add: base64_encode_sextets remove_padding_def butlast_append)
  next
    case 3
    with len show ?thesis
      by (simp add: base64_encode_sextets remove_padding_def butlast_append)
  qed
qed

lemma atob_encode: "atob (base64_encode X) = Inr (map char_of (map unat X))"
proof -
  have "those (map (\<lambda>c. index_of c base64_alphabet) (map base64_char (sextets X))) = Some (sextets X)"
    by (rule those_index_of) (rule sextets_lt)
  then show ?thesis
    using length_sextets_mod [of X]
    by (simp add: atob_def base64_encode_no_whitespace remove_padding_encode
          decode_sextets_sextets)
qed

lemma map_of_char_char_of: "map of_char (map char_of (map unat (X :: byte list))) = X"
  by (induction X) (simp_all add: of_char_char_of_unat)

lemma split_on_single: "c \<notin> set q \<Longrightarrow> split_on c q = [q]"
  by (induction q) auto

lemma split_on_append: "c \<notin> set p \<Longrightarrow> split_on c (p @ c # q) = p # split_on c q"
  by (induction p) auto

lemma base64_encode_no_comma: "CHR '','' \<notin> set (base64_encode X)"
  using base64_encode_chars [of "CHR '',''" X] alphabet_excludes(2) by auto

lemma fileToBase64_readAsDataURL:
  assumes "CHR '','' \<notin> set (file_type f)"
  shows "fileToBase64 readAsDataURL f = Inr (base64_encode (file_bytes f))"
proof -
  let ?E = "base64_encode (file_bytes f)"
  have a: "CHR '','' \<notin> set (''data:'' @ file_type f @ '';base64'')"
    using assms by simp
  have "split_on CHR '','' ((''data:'' @ file_type f @ '';base64'') @ CHR '','' # ?E)
    = (''data:'' @ file_type f @ '';base64'') # split_on CHR '','' ?E"
    by (rule split_on_append [OF a])
  also have "split_on CHR '','' ?E = [?E]"
    by (rule split_on_single [OF base64_encode_no_comma])
  finally have "split_on CHR '','' (''data:'' @ file_type f @ '';base64,'' @ ?E)
    = [''data:'' @ file_type f @ '';base64'', ?E]"
    by simp
  then show ?thesis
    by (simp add: fileToBase64_def readAsDataURL_def or_else_def truthy_def numeral_eq_Suc
          del: split_on.simps)
qed

lemma replace_newlines_with_line_breaks:
  "with_line_breaks p q \<Longrightarrow> replace_newlines q = p"
  by (induction rule: with_line_breaks.induct) simp_all

lemma base64ToBlob_with_line_breaks:
  "with_line_breaks (base64_encode X) q \<Longrightarrow> base64ToBlob q = Inr X"
  by (simp add: base64ToBlob_def replace_newlines_with_line_breaks atob_encode
        map_of_char_char_of del: map_map)

lemma with_line_breaks_refl:
  "CHR 0x0A \<notin> set p \<Longrightarrow> CHR 0x0D \<notin> set p \<Longrightarrow> with_line_breaks p p"
  by (induction p) (auto intro: with_line_breaks.intros)

lemma with_line_breaks_encode: "with_line_breaks (base64_encode X) (base64_encode X)"
proof (rule with_line_breaks_refl)
  show "CHR 0x0A \<notin> set (base64_encode X)"
    using base64_encode_chars [of "CHR 0x0A" X] alphabet_excludes(3) by auto
  show "CHR 0x0D \<notin> set (base64_encode X)"
    using base64_encode_chars [of "CHR 0x0D" X] alphabet_excludes(4) by auto
qed

text \<open>
  C8. For every byte sequence, the payload that \<open>fileToBase64\<close> produces from a file with
  these bytes decodes, by \<open>base64ToBlob\<close>, to exactly these bytes, and so does that payload
  with line breaks put in at any places. The file's media type, which the host puts in
  front of the payload in the data URL, is taken to have no comma.
\<close>

theorem base64_round_trip:
  "CHR '','' \<notin> set (file_type f) \<Longrightarrow>
   with_line_breaks (base64_encode (file_bytes f)) q \<Longrightarrow>
   fileToBase64 readAsDataURL f = Inr (base64_encode (file_bytes f)) \<and>
   base64ToBlob (base64_encode (file_bytes f)) = Inr (file_bytes f) \<and>
   base64ToBlob q = Inr (file_bytes f)"
  by (simp add: fileToBase64_readAsDataURL base64ToBlob_with_line_breaks with_line_breaks_encode)

text \<open>An instance of C8: the bytes of \<open>Hi\<close>, a line feed and \<open>!\<close>.\<close>

theorem base64_round_trip_witness:
  "CHR '','' \<notin> set ''text/plain'' \<and>
   with_line_breaks ''SGkKIQ=='' (''SGkK'' @ [CHR 0x0A] @ ''IQ=='' @ [CHR 0x0D, CHR 0x0A]) \<and>
   fileToBase64 readAsDataURL \<lparr>file_type = ''text/plain'', file_bytes = [72, 105, 10, 33]\<rparr> =
     Inr ''SGkKIQ=='' \<and>
   base64ToBlob ''SGkKIQ=='' = Inr [72, 105, 10, 33] \<and>
   base64ToBlob (''SGkK'' @ [CHR 0x0A] @ ''IQ=='' @ [CHR 0x0D, CHR 0x0A]) = Inr [72, 105, 10, 33]"
proof -
  let ?f = "\<lparr>file_type = ''text/plain'', file_bytes = [72, 105, 10, 33]\<rparr>"
  have t: "file_type ?f = ''text/plain''" and b: "file_bytes ?f = [72, 105, 10, 33]"
    by simp_all
  have e: "base64_encode [72, 105, 10, 33] = ''SGkKIQ==''"
    by (simp add: base64_char_def base64_alphabet_def)
  have c: "CHR '','' \<notin> set ''text/plain''"
    by simp
  have w: "with_line_breaks ''SGkKIQ=='' (''SGkK'' @ [CHR 0x0A] @ ''IQ=='' @ [CHR 0x0D, CHR 0x0A])"
    by (auto intro!: with_line_breaks.intros)
  have c': "CHR '','' \<notin> set (file_type ?f)"
    by simp
  have w': "with_line_breaks (base64_encode (file_bytes ?f))
      (''SGkK'' @ [CHR 0x0A] @ ''IQ=='' @ [CHR 0x0D, CHR 0x0A])"
    using w by (simp only: b e)
  have r: "fileToBase64 readAsDataURL ?f = Inr ''SGkKIQ=='' \<and>
    base64ToBlob ''SGkKIQ=='' = Inr [72, 105, 10, 33] \<and>
    base64ToBlob (''SGkK'' @ [CHR 0x0A] @ ''IQ=='' @ [CHR 0x0D, CHR 0x0A]) = Inr [72, 105, 10, 33]"
    using base64_round_trip [OF c' w'] by (simp only: b e)
  from c w r show ?thesis by blast
qed

end
